theory Spec2Isabelle
  imports Complex_Main "HOL-Library.Word"
begin

section \<open>Values of the invoice form\<close>

text \<open>
  The embedded program is the React component \<^verbatim>\<open>InvoiceForm\<close> of
  \<^verbatim>\<open>client/src/components/forms/invoice-form.tsx\<close>.

  A JavaScript string is a sequence of 16-bit code units. ASCII literals of the source are
  written with \<open>ascii\<close>; the Arabic literals are given by their code units.

  A JavaScript \<^verbatim>\<open>number\<close> is modelled by an exact rational: the component only adds,
  subtracts and multiplies numbers, and the model reads \<open>+\<close>, \<open>-\<close> and \<open>*\<close> as the exact
  operations (IEEE rounding and the values NaN and Infinity are outside the model). The
  built-in functions \<^verbatim>\<open>parseFloat\<close> and \<^verbatim>\<open>Number.prototype.toString\<close> are
  parameters (\<open>pf\<close>, \<open>toStr\<close>) of the functions that call them, and the result of
  \<^verbatim>\<open>crypto.randomUUID()\<close> is an argument (\<open>uuid\<close>) of \<open>addItem\<close>.
\<close>

type_synonym jsstring = "16 word list"

type_synonym number = rat

definition ascii :: "string \<Rightarrow> jsstring" where
  "ascii s = map of_char s"

text \<open>
  \<^verbatim>\<open>a || b\<close> on strings: the empty string is the only falsy string.
\<close>

definition or_str :: "jsstring \<Rightarrow> jsstring \<Rightarrow> jsstring" where
  "or_str a b = (if a \<noteq> [] then a else b)"

text \<open>
  \<^verbatim>\<open>String.prototype.trim\<close> removes the code units of the ECMAScript productions
  WhiteSpace and LineTerminator from both ends: TAB, LF, VT, FF, CR, SP, NBSP, U+1680,
  U+2000 to U+200A, U+2028, U+2029, U+202F, U+205F, U+3000 and U+FEFF.
\<close>

definition isWhiteSpace :: "16 word \<Rightarrow> bool" where
  "isWhiteSpace c \<longleftrightarrow>
     c = 0x09 \<or> c = 0x0A \<or> c = 0x0B \<or> c = 0x0C \<or> c = 0x0D \<or> c = 0x20 \<or> c = 0xA0 \<or>
     c = 0x1680 \<or> (0x2000 \<le> c \<and> c \<le> 0x200A) \<or> c = 0x2028 \<or> c = 0x2029 \<or>
     c = 0x202F \<or> c = 0x205F \<or> c = 0x3000 \<or> c = 0xFEFF"

definition trim :: "jsstring \<Rightarrow> jsstring" where
  "trim s = rev (dropWhile isWhiteSpace (rev (dropWhile isWhiteSpace s)))"

subsection \<open>Records of the component\<close>

text \<open>
  \<^verbatim>\<open>interface TransactionItem\<close> (lines 23 to 31). The field \<^verbatim>\<open>id\<close> is named
  \<open>item_id\<close>, since \<open>id\<close> is the identity function of HOL.
\<close>

record TransactionItem =
  item_id :: jsstring
  transactionId :: jsstring
  productId :: jsstring
  productName :: jsstring
  quantity :: number
  price :: number
  total :: number

text \<open>
  The types \<^verbatim>\<open>Product\<close>, \<^verbatim>\<open>Customer\<close> and \<^verbatim>\<open>InsertTransaction\<close> are imported from
  \<^verbatim>\<open>@shared/schema\<close>, which is not part of the sources at hand. The records hold the
  fields that the component reads: \<^verbatim>\<open>product.id\<close>, \<^verbatim>\<open>product.name\<close>, \<^verbatim>\<open>product.price\<close>
  (a decimal string, passed to \<^verbatim>\<open>parseFloat\<close>), \<^verbatim>\<open>customer.id\<close>, \<^verbatim>\<open>customer.name\<close>, and
  the four form fields of \<^verbatim>\<open>defaultValues\<close>.
\<close>

record Product =
  product_id :: jsstring
  product_name :: jsstring
  product_price :: jsstring

record Customer =
  customer_id :: jsstring
  customer_name :: jsstring

record InsertTransaction =
  customerName :: jsstring
  discount :: jsstring
  paymentType :: jsstring
  currency :: jsstring

text \<open>The \<^verbatim>\<open>defaultValues\<close> of \<^verbatim>\<open>useForm\<close> (lines 60 to 65).\<close>

definition defaultValues :: InsertTransaction where
  "defaultValues =
     \<lparr>customerName = [], discount = ascii ''0'', paymentType = ascii ''cash'',
      currency = ascii ''TRY''\<rparr>"

section \<open>Item aggregation\<close>

text \<open>
  \<^verbatim>\<open>addItem\<close> (lines 68 to 89), as a function of the item list of the render whose
  closure is called. \<^verbatim>\<open>items.find\<close> returns the first line of the product or
  \<^verbatim>\<open>undefined\<close>; a line is an object, hence truthy.
\<close>

definition addItem ::
  "(jsstring \<Rightarrow> number) \<Rightarrow> jsstring \<Rightarrow> TransactionItem list \<Rightarrow> Product \<Rightarrow> TransactionItem list"
where
  "addItem pf uuid its product =
     (case find (\<lambda>item. productId item = product_id product) its of
        Some existingItem \<Rightarrow>
          map (\<lambda>item.
                 if productId item = product_id product
                 then item\<lparr>quantity := quantity item + 1,
                           total := (quantity item + 1) * price item\<rparr>
                 else item) its
      | None \<Rightarrow>
          its @ [\<lparr>item_id = uuid, transactionId = [], productId = product_id product,
                   productName = product_name product, quantity = 1,
                   price = pf (product_price product),
                   total = pf (product_price product)\<rparr>])"

text \<open>The remove button of a line (line 347): \<^verbatim>\<open>items.filter((i) => i.id !== item.id)\<close>.\<close>

definition removeItem :: "jsstring \<Rightarrow> TransactionItem list \<Rightarrow> TransactionItem list" where
  "removeItem lineId its = filter (\<lambda>i. item_id i \<noteq> lineId) its"

text \<open>A sequence of add and remove events, each run on the list the previous one left.\<close>

datatype itemEvent = AddItem Product jsstring | RemoveItem jsstring

fun applyEvent ::
  "(jsstring \<Rightarrow> number) \<Rightarrow> TransactionItem list \<Rightarrow> itemEvent \<Rightarrow> TransactionItem list"
where
  "applyEvent pf its (AddItem product uuid) = addItem pf uuid its product"
| "applyEvent pf its (RemoveItem lineId) = removeItem lineId its"

definition applyEvents ::
  "(jsstring \<Rightarrow> number) \<Rightarrow> itemEvent list \<Rightarrow> TransactionItem list \<Rightarrow> TransactionItem list"
where
  "applyEvents pf evs its = foldl (applyEvent pf) its evs"

section \<open>Totals\<close>

text \<open>
  \<^verbatim>\<open>calculateTotals\<close> (lines 111 to 117), as a function of the item list and of the
  watched form field \<^verbatim>\<open>form.watch("discount")\<close>. The fields \<^verbatim>\<open>discount\<close> and
  \<^verbatim>\<open>total\<close> of the returned object are named \<open>totals_discount\<close> and \<open>totals_total\<close>.
\<close>

record Totals =
  subtotal :: number
  totals_discount :: number
  totals_total :: number

definition calculateTotals ::
  "(jsstring \<Rightarrow> number) \<Rightarrow> TransactionItem list \<Rightarrow> jsstring \<Rightarrow> Totals"
where
  "calculateTotals pf its watched =
     (let subtotal = foldl (\<lambda>sum item. sum + total item) 0 its;
          discount = pf (or_str watched (ascii ''0''));
          total = subtotal - discount
      in \<lparr>subtotal = subtotal, totals_discount = discount, totals_total = total\<rparr>)"

section \<open>State and effects of the form\<close>

text \<open>
  The \<^verbatim>\<open>useState\<close> cells of the component (lines 35 to 40) and the values held by
  \<^verbatim>\<open>useForm\<close>.
\<close>

record FormState =
  items :: "TransactionItem list"
  selectedCustomer :: "Customer option"
  customerSearch :: jsstring
  productSearch :: jsstring
  barcodeInput :: jsstring
  lastScannedBarcode :: jsstring
  form :: InsertTransaction

text \<open>
  The object built in \<^verbatim>\<open>onSubmit\<close> (lines 135 to 141): the fields of \<^verbatim>\<open>data\<close>, then
  \<^verbatim>\<open>total\<close> (named \<open>td_total\<close>), \<^verbatim>\<open>tax\<close> and \<^verbatim>\<open>customerId\<close> (\<open>None\<close> is
  \<^verbatim>\<open>null\<close>).
\<close>

record TransactionData = InsertTransaction +
  td_total :: jsstring
  tax :: jsstring
  customerId :: "jsstring option"

record ApiRequest =
  req_method :: jsstring
  req_url :: jsstring
  body_transaction :: TransactionData
  body_items :: "TransactionItem list"

record ToastMsg =
  title :: jsstring
  description :: jsstring
  variant :: "jsstring option"

text \<open>What a handler does besides setting state, in the order of the calls.\<close>

datatype effect =
  Toast ToastMsg
| Request ApiRequest
| InvalidateQueries jsstring
| OnClose

text \<open>The Arabic literals of lines 126, 127, 140, 154, 155, 163 and 164, as code units.\<close>

definition str_error :: jsstring where
  "str_error = [0x62E, 0x637, 0x623]"

definition str_need_one_product :: jsstring where
  "str_need_one_product =
     [0x64A, 0x62C, 0x628, 0x20, 0x625, 0x636, 0x627, 0x641, 0x629, 0x20, 0x645, 0x646,
      0x62A, 0x62C, 0x20, 0x648, 0x627, 0x62D, 0x62F, 0x20, 0x639, 0x644, 0x649, 0x20,
      0x627, 0x644, 0x623, 0x642, 0x644]"

definition str_unspecified_customer :: jsstring where
  "str_unspecified_customer =
     [0x639, 0x645, 0x64A, 0x644, 0x20, 0x63A, 0x64A, 0x631, 0x20, 0x645, 0x62D, 0x62F,
      0x62F]"

definition str_success :: jsstring where
  "str_success = [0x62A, 0x645, 0x20, 0x628, 0x646, 0x62C, 0x627, 0x62D]"

definition str_invoice_created :: jsstring where
  "str_invoice_created =
     [0x62A, 0x645, 0x20, 0x625, 0x646, 0x634, 0x627, 0x621, 0x20, 0x627, 0x644, 0x641,
      0x627, 0x62A, 0x648, 0x631, 0x629, 0x20, 0x628, 0x646, 0x62C, 0x627, 0x62D]"

definition str_invoice_failed :: jsstring where
  "str_invoice_failed =
     [0x641, 0x634, 0x644, 0x20, 0x641, 0x64A, 0x20, 0x625, 0x646, 0x634, 0x627, 0x621,
      0x20, 0x627, 0x644, 0x641, 0x627, 0x62A, 0x648, 0x631, 0x629]"

definition emptyItemsToast :: ToastMsg where
  "emptyItemsToast =
     \<lparr>title = str_error, description = str_need_one_product,
      variant = Some (ascii ''destructive'')\<rparr>"

definition successToast :: ToastMsg where
  "successToast = \<lparr>title = str_success, description = str_invoice_created, variant = None\<rparr>"

definition failureToast :: ToastMsg where
  "failureToast =
     \<lparr>title = str_error, description = str_invoice_failed,
      variant = Some (ascii ''destructive'')\<rparr>"

text \<open>
  \<^verbatim>\<open>a || b\<close> where \<open>a\<close> may be \<^verbatim>\<open>undefined\<close> (\<open>None\<close>), as the optional chains
  \<^verbatim>\<open>selectedCustomer?.id\<close> and \<^verbatim>\<open>selectedCustomer?.name\<close> are.
\<close>

definition or_undef :: "jsstring option \<Rightarrow> jsstring \<Rightarrow> jsstring" where
  "or_undef a b = (case a of None \<Rightarrow> b | Some s \<Rightarrow> or_str s b)"

definition or_null :: "jsstring option \<Rightarrow> jsstring option" where
  "or_null a = (case a of None \<Rightarrow> None | Some s \<Rightarrow> if s \<noteq> [] then Some s else None)"

section \<open>Submission\<close>

text \<open>The \<^verbatim>\<open>mutationFn\<close> of \<^verbatim>\<open>createTransactionMutation\<close> (lines 147 to 149).\<close>

definition mutationFn :: "TransactionData \<Rightarrow> TransactionItem list \<Rightarrow> ApiRequest" where
  "mutationFn transactionData its =
     \<lparr>req_method = ascii ''POST'', req_url = ascii ''/api/transactions'',
      body_transaction = transactionData, body_items = its\<rparr>"

text \<open>
  \<^verbatim>\<open>onSubmit\<close> (lines 123 to 144). \<^verbatim>\<open>createTransactionMutation.mutate\<close> runs
  \<^verbatim>\<open>mutationFn\<close> once, which sends one request.
\<close>

definition onSubmit ::
  "(jsstring \<Rightarrow> number) \<Rightarrow> (number \<Rightarrow> jsstring) \<Rightarrow> FormState \<Rightarrow> InsertTransaction
     \<Rightarrow> FormState \<times> effect list"
where
  "onSubmit pf toStr st data =
     (if length (items st) = 0 then (st, [Toast emptyItemsToast])
      else
        let total = totals_total (calculateTotals pf (items st) (discount (form st)));
            transactionData =
              \<lparr>customerName =
                 or_str (or_undef (map_option customer_name (selectedCustomer st))
                           (customerName data))
                   str_unspecified_customer,
               discount = discount data,
               paymentType = paymentType data,
               currency = currency data,
               td_total = toStr total,
               tax = ascii ''0'',
               customerId = or_null (map_option customer_id (selectedCustomer st))\<rparr>
        in (st, [Request (mutationFn transactionData (items st))]))"

text \<open>\<^verbatim>\<open>onSuccess\<close> (lines 150 to 160) and \<^verbatim>\<open>onError\<close> (lines 161 to 167).\<close>

definition onSuccess :: "FormState \<Rightarrow> FormState \<times> effect list" where
  "onSuccess st =
     (st\<lparr>form := defaultValues, items := []\<rparr>,
      [InvalidateQueries (ascii ''/api/transactions''),
       InvalidateQueries (ascii ''/api/dashboard/metrics''),
       Toast successToast,
       OnClose])"

definition onError :: "FormState \<Rightarrow> FormState \<times> effect list" where
  "onError st = (st, [Toast failureToast])"

section \<open>Barcode lookup\<close>

text \<open>\<^verbatim>\<open>handleBarcodeSearch\<close> (lines 91 to 94).\<close>

definition handleBarcodeSearch :: "FormState \<Rightarrow> FormState" where
  "handleBarcodeSearch st =
     (if trim (barcodeInput st) = [] then st
      else st\<lparr>lastScannedBarcode := trim (barcodeInput st)\<rparr>)"

text \<open>
  The barcode query (lines 47 to 51): its key, and \<^verbatim>\<open>enabled: !!lastScannedBarcode\<close>.
  A lookup is sent for the key of an enabled query.
\<close>

definition barcodeQueryKey :: "FormState \<Rightarrow> jsstring list" where
  "barcodeQueryKey st = [ascii ''/api/products/barcode'', lastScannedBarcode st]"

definition barcodeQueryEnabled :: "FormState \<Rightarrow> bool" where
  "barcodeQueryEnabled st \<longleftrightarrow> lastScannedBarcode st \<noteq> []"

text \<open>
  The effect of lines 103 to 109, run with the \<^verbatim>\<open>scannedProduct\<close> of the render
  (\<open>None\<close> is \<^verbatim>\<open>undefined\<close>: no data, as while loading and after a failed lookup).
\<close>

definition autoAddEffect ::
  "(jsstring \<Rightarrow> number) \<Rightarrow> jsstring \<Rightarrow> FormState \<Rightarrow> Product option \<Rightarrow> FormState"
where
  "autoAddEffect pf uuid st scannedProduct =
     (case scannedProduct of
        Some product \<Rightarrow>
          st\<lparr>items := addItem pf uuid (items st) product,
             barcodeInput := [],
             lastScannedBarcode := []\<rparr>
      | None \<Rightarrow> st)"

text \<open>
  The condition under which the not-found paragraph is rendered (line 213):
  \<^verbatim>\<open>lastScannedBarcode && !scannedProduct && !barcodeLoading\<close>.
\<close>

definition notFoundNotice :: "FormState \<Rightarrow> Product option \<Rightarrow> bool \<Rightarrow> bool" where
  "notFoundNotice st scannedProduct barcodeLoading \<longleftrightarrow>
     lastScannedBarcode st \<noteq> [] \<and> scannedProduct = None \<and> \<not> barcodeLoading"

section \<open>Stand-ins for the built-in functions in the examples\<close>

text \<open>
  \<open>parseDigits\<close> is the value of a string of decimal digits, where it agrees with
  \<^verbatim>\<open>parseFloat\<close>; \<open>showDigits\<close> writes a natural number below 100 in decimal digits,
  where it agrees with \<^verbatim>\<open>toString\<close>. They instantiate the parameters \<open>pf\<close> and
  \<open>toStr\<close> at concrete inputs only; every general statement below holds for all \<open>pf\<close>
  and \<open>toStr\<close>.
\<close>

definition parseDigits :: "jsstring \<Rightarrow> number" where
  "parseDigits s = foldl (\<lambda>acc c. 10 * acc + of_nat (unat c - 48)) 0 s"

definition showDigits :: "number \<Rightarrow> jsstring" where
  "showDigits n =
     (let k = nat \<lfloor>n\<rfloor>
      in if k < 10 then [of_nat (48 + k)]
         else [of_nat (48 + k div 10 mod 10), of_nat (48 + k mod 10)])"

section \<open>Specification predicates and example data\<close>

text \<open>
  \<open>createdBy pf i e\<close>: the event \<open>e\<close> is an add event whose generated identifier, product
  identifier, product name and parsed product price are those of the line \<open>i\<close>.
\<close>

definition createdBy :: "(jsstring \<Rightarrow> number) \<Rightarrow> TransactionItem \<Rightarrow> itemEvent \<Rightarrow> bool" where
  "createdBy pf i e =
     (case e of
        AddItem p u \<Rightarrow>
          u = item_id i \<and> productId i = product_id p \<and> productName i = product_name p \<and>
          price i = pf (product_price p)
      | RemoveItem l \<Rightarrow> False)"

text \<open>The requests among the effects of a handler.\<close>

fun requestsOf :: "effect list \<Rightarrow> ApiRequest list" where
  "requestsOf [] = []"
| "requestsOf (Request r # es) = r # requestsOf es"
| "requestsOf (e # es) = requestsOf es"

text \<open>The state of a freshly mounted form (the initial values of lines 35 to 40).\<close>

definition initialState :: FormState where
  "initialState =
     \<lparr>items = [], selectedCustomer = None, customerSearch = [], productSearch = [],
      barcodeInput = [], lastScannedBarcode = [], form = defaultValues\<rparr>"

definition ex_pen :: Product where
  "ex_pen = \<lparr>product_id = ascii ''p1'', product_name = ascii ''Pen'', product_price = ascii ''10''\<rparr>"

definition ex_ink :: Product where
  "ex_ink = \<lparr>product_id = ascii ''p2'', product_name = ascii ''Ink'', product_price = ascii ''5''\<rparr>"

definition ex_pen_line :: TransactionItem where
  "ex_pen_line =
     \<lparr>item_id = ascii ''u1'', transactionId = [], productId = ascii ''p1'',
      productName = ascii ''Pen'', quantity = 1, price = 10, total = 10\<rparr>"

definition ex_ann :: Customer where
  "ex_ann = \<lparr>customer_id = ascii ''c1'', customer_name = ascii ''Ann''\<rparr>"


definition ex_bob_form :: InsertTransaction where
  "ex_bob_form = defaultValues\<lparr>customerName := ascii ''Bob''\<rparr>"

section \<open>Auxiliary facts\<close>

subsection \<open>Item aggregation\<close>

lemma no_line_of_product:
  "product_id p \<notin> productId ` set its \<Longrightarrow> x \<in> set its \<Longrightarrow> productId x \<noteq> product_id p"
  by (metis image_eqI)

lemma addItem_new:
  assumes "product_id p \<notin> productId ` set its"
  shows "addItem pf u its p =
    its @ [\<lparr>item_id = u, transactionId = [], productId = product_id p,
            productName = product_name p, quantity = 1,
            price = pf (product_price p), total = pf (product_price p)\<rparr>]"
proof -
  from assms have "find (\<lambda>item. productId item = product_id p) its = None"
    by (simp add: find_None_iff no_line_of_product)
  then show ?thesis by (simp add: addItem_def)
qed

lemma addItem_existing:
  assumes "product_id p \<in> productId ` set its"
  shows "addItem pf u its p =
    map (\<lambda>item. if productId item = product_id p
                 then item\<lparr>quantity := quantity item + 1,
                           total := (quantity item + 1) * price item\<rparr>
                 else item) its"
proof (cases "find (\<lambda>item. productId item = product_id p) its")
  case None
  with assms show ?thesis by (auto simp: find_None_iff)
next
  case (Some a)
  then show ?thesis by (simp add: addItem_def)
qed

lemma map_productId_addItem:
  "map productId (addItem pf u its p) =
     (if product_id p \<in> productId ` set its then map productId its
      else map productId its @ [product_id p])"
proof (cases "product_id p \<in> productId ` set its")
  case True
  have "map productId (map (\<lambda>item. if productId item = product_id p
                 then item\<lparr>quantity := quantity item + 1,
                           total := (quantity item + 1) * price item\<rparr>
                 else item) its) = map productId its"
    by (induction its) auto
  with True show ?thesis by (simp add: addItem_existing)
next
  case False
  then show ?thesis by (simp add: addItem_new)
qed

lemma distinct_addItem:
  "distinct (map productId its) \<Longrightarrow> distinct (map productId (addItem pf u its p))"
  by (auto simp: map_productId_addItem)

lemma distinct_removeItem:
  "distinct (map productId its) \<Longrightarrow> distinct (map productId (removeItem l its))"
  unfolding removeItem_def by (rule distinct_map_filter)

lemma distinct_applyEvent:
  "distinct (map productId its) \<Longrightarrow> distinct (map productId (applyEvent pf its e))"
  by (cases e) (simp_all add: distinct_addItem distinct_removeItem)

lemma distinct_applyEvents:
  "distinct (map productId its) \<Longrightarrow> distinct (map productId (applyEvents pf evs its))"
  unfolding applyEvents_def
  by (induction evs arbitrary: its) (simp_all add: distinct_applyEvent)

lemma addItem_twice:
  assumes "product_id p \<notin> productId ` set its"
  shows "addItem pf u2 (addItem pf u1 its p) p =
    its @ [\<lparr>item_id = u1, transactionId = [], productId = product_id p,
            productName = product_name p, quantity = 2,
            price = pf (product_price p), total = 2 * pf (product_price p)\<rparr>]"
proof -
  let ?l = "\<lparr>item_id = u1, transactionId = [], productId = product_id p,
            productName = product_name p, quantity = 1,
            price = pf (product_price p), total = pf (product_price p)\<rparr>"
  have 1: "addItem pf u1 its p = its @ [?l]" using assms by (rule addItem_new)
  have 2: "product_id p \<in> productId ` set (its @ [?l])" by simp
  have 3: "map (\<lambda>item. if productId item = product_id p
                 then item\<lparr>quantity := quantity item + 1,
                           total := (quantity item + 1) * price item\<rparr>
                 else item) its = its"
    using assms by (induction its) auto
  show ?thesis
    unfolding 1 addItem_existing[OF 2] using 3 by simp
qed


lemma createdBy_update [simp]:
  "createdBy pf (i\<lparr>quantity := a, total := b\<rparr>) e = createdBy pf i e"
  by (cases e) (simp_all add: createdBy_def)


subsection \<open>Totals\<close>





subsection \<open>Trimming\<close>

lemma split_trailing:
  "d = rev (dropWhile P (rev d)) @ rev (takeWhile P (rev d))"
proof -
  have "rev d = takeWhile P (rev d) @ dropWhile P (rev d)" by simp
  then have "rev (rev d) = rev (takeWhile P (rev d) @ dropWhile P (rev d))"
    by (rule arg_cong)
  then show ?thesis by (simp only: rev_rev_ident rev_append)
qed

lemma trim_decomp:
  "\<exists>l r. s = l @ trim s @ r \<and> (\<forall>c\<in>set l. isWhiteSpace c) \<and> (\<forall>c\<in>set r. isWhiteSpace c)"
proof -
  define d where "d = dropWhile isWhiteSpace s"
  define l where "l = takeWhile isWhiteSpace s"
  define r where "r = rev (takeWhile isWhiteSpace (rev d))"
  have t: "trim s = rev (dropWhile isWhiteSpace (rev d))" by (simp only: trim_def d_def)
  have "d = trim s @ r" unfolding t r_def by (rule split_trailing)
  moreover have "s = l @ d" by (simp add: l_def d_def)
  ultimately have "s = l @ trim s @ r" by simp
  moreover have "\<forall>c\<in>set l. isWhiteSpace c"
    unfolding l_def by (auto dest: set_takeWhileD)
  moreover have "\<forall>c\<in>set r. isWhiteSpace c"
    unfolding r_def by (auto dest: set_takeWhileD)
  ultimately show ?thesis by blast
qed

lemma trim_empty_iff: "trim s = [] \<longleftrightarrow> (\<forall>c\<in>set s. isWhiteSpace c)"
proof
  assume "trim s = []"
  then have a: "\<forall>c\<in>set (dropWhile isWhiteSpace s). isWhiteSpace c"
    by (simp add: trim_def)
  have "dropWhile isWhiteSpace s = []"
  proof (rule ccontr)
    assume n: "dropWhile isWhiteSpace s \<noteq> []"
    then have "\<not> isWhiteSpace (hd (dropWhile isWhiteSpace s))" by (rule hd_dropWhile)
    moreover from n have "hd (dropWhile isWhiteSpace s) \<in> set (dropWhile isWhiteSpace s)"
      by (rule hd_in_set)
    ultimately show False using a by blast
  qed
  then show "\<forall>c\<in>set s. isWhiteSpace c" by simp
next
  assume "\<forall>c\<in>set s. isWhiteSpace c"
  then have "dropWhile isWhiteSpace s = []" by simp
  then show "trim s = []" by (simp only: trim_def rev.simps dropWhile.simps)
qed

lemma trim_ends:
  assumes "trim s \<noteq> []"
  shows "\<not> isWhiteSpace (hd (trim s)) \<and> \<not> isWhiteSpace (last (trim s))"
proof -
  define d where "d = dropWhile isWhiteSpace s"
  define e where "e = dropWhile isWhiteSpace (rev d)"
  have t: "trim s = rev e" by (simp only: trim_def e_def d_def)
  with assms have en: "e \<noteq> []" by simp
  then have "\<not> isWhiteSpace (hd e)" unfolding e_def by (rule hd_dropWhile)
  then have l: "\<not> isWhiteSpace (last (trim s))" using en by (simp add: t last_rev)
  have dd: "d = rev e @ rev (takeWhile isWhiteSpace (rev d))"
    unfolding e_def by (rule split_trailing)
  then have dn: "d \<noteq> []" using en by auto
  then have "\<not> isWhiteSpace (hd d)" unfolding d_def by (rule hd_dropWhile)
  moreover have "hd d = hd (rev e)" using dd en by (metis hd_append2 rev_is_Nil_conv)
  ultimately have "\<not> isWhiteSpace (hd (trim s))" by (simp add: t)
  with l show ?thesis by simp
qed

section \<open>The claims\<close>

subsection \<open>One line per product\<close>

text \<open>
  Claim C1. Whatever sequence of add and remove events is run from the empty item list,
  no two lines of the resulting list have the same \<open>productId\<close>. Adding a product that has
  no line twice leaves the earlier lines as they are and appends one line of that product,
  with quantity 2 and a total of twice the parsed price; it is the only line of the product.
\<close>

theorem C1_one_line_per_product:
  "distinct (map productId (applyEvents pf evs [])) \<and>
   (product_id p \<notin> productId ` set its \<longrightarrow>
      addItem pf u2 (addItem pf u1 its p) p =
        its @ [\<lparr>item_id = u1, transactionId = [], productId = product_id p,
                productName = product_name p, quantity = 2,
                price = pf (product_price p), total = 2 * pf (product_price p)\<rparr>] \<and>
      filter (\<lambda>i. productId i = product_id p) (addItem pf u2 (addItem pf u1 its p) p) =
        [\<lparr>item_id = u1, transactionId = [], productId = product_id p,
          productName = product_name p, quantity = 2,
          price = pf (product_price p), total = 2 * pf (product_price p)\<rparr>])"
proof (intro conjI impI)
  show "distinct (map productId (applyEvents pf evs []))"
    by (rule distinct_applyEvents) simp
next
  assume a: "product_id p \<notin> productId ` set its"
  have f: "filter (\<lambda>i. productId i = product_id p) its = []"
    using a by (simp add: filter_empty_conv no_line_of_product)
  show "addItem pf u2 (addItem pf u1 its p) p =
        its @ [\<lparr>item_id = u1, transactionId = [], productId = product_id p,
                productName = product_name p, quantity = 2,
                price = pf (product_price p), total = 2 * pf (product_price p)\<rparr>]"
    using a by (rule addItem_twice)
  then show "filter (\<lambda>i. productId i = product_id p) (addItem pf u2 (addItem pf u1 its p) p) =
        [\<lparr>item_id = u1, transactionId = [], productId = product_id p,
          productName = product_name p, quantity = 2,
          price = pf (product_price p), total = 2 * pf (product_price p)\<rparr>]"
    using f by simp
qed

theorem C1_one_line_per_product_witness:
  "distinct (map productId (applyEvents parseDigits
      [AddItem ex_pen (ascii ''u1''), AddItem ex_ink (ascii ''u2''),
       AddItem ex_pen (ascii ''u3''), RemoveItem (ascii ''u2'')] [])) \<and>
   product_id ex_pen \<notin> productId ` set [] \<and>
   addItem parseDigits (ascii ''u3'') (addItem parseDigits (ascii ''u1'') [] ex_pen) ex_pen =
     [\<lparr>item_id = ascii ''u1'', transactionId = [], productId = ascii ''p1'',
       productName = ascii ''Pen'', quantity = 2, price = 10, total = 20\<rparr>] \<and>
   filter (\<lambda>i. productId i = product_id ex_pen)
     (addItem parseDigits (ascii ''u3'') (addItem parseDigits (ascii ''u1'') [] ex_pen) ex_pen) =
     [\<lparr>item_id = ascii ''u1'', transactionId = [], productId = ascii ''p1'',
       productName = ascii ''Pen'', quantity = 2, price = 10, total = 20\<rparr>]"
  using C1_one_line_per_product [where pf = parseDigits and p = ex_pen and its = "[]"
      and ?u1.0 = "ascii ''u1''" and ?u2.0 = "ascii ''u3''"
      and evs = "[AddItem ex_pen (ascii ''u1''), AddItem ex_ink (ascii ''u2''),
       AddItem ex_pen (ascii ''u3''), RemoveItem (ascii ''u2'')]"]
  by (simp add: ex_pen_def ascii_def parseDigits_def)

subsection \<open>Totals\<close>


subsection \<open>Submission without lines\<close>

text \<open>
  Claim C3. Removing the only line of a list leaves the empty list. \<open>onSubmit\<close> on a state
  with no line returns the state as it was, with the toast of the empty-list error as its
  only effect: no request is sent. This is what happens after the only line was removed.
\<close>

theorem C3_empty_items_rejected:
  "removeItem (item_id x) [x] = [] \<and>
   (items st = [] \<longrightarrow>
      onSubmit pf toStr st data = (st, [Toast emptyItemsToast]) \<and>
      requestsOf (snd (onSubmit pf toStr st data)) = []) \<and>
   (items st = [x] \<longrightarrow>
      onSubmit pf toStr (st\<lparr>items := removeItem (item_id x) (items st)\<rparr>) data =
        (st\<lparr>items := []\<rparr>, [Toast emptyItemsToast]))"
  by (simp add: removeItem_def onSubmit_def)

theorem C3_empty_items_rejected_witness:
  "items initialState = [] \<and>
   onSubmit parseDigits showDigits initialState ex_bob_form =
     (initialState, [Toast emptyItemsToast]) \<and>
   items (initialState\<lparr>items := [ex_pen_line]\<rparr>) = [ex_pen_line] \<and>
   onSubmit parseDigits showDigits
     (initialState\<lparr>items := removeItem (ascii ''u1'') [ex_pen_line]\<rparr>) ex_bob_form =
     (initialState, [Toast emptyItemsToast])"
  using C3_empty_items_rejected [where st = initialState and pf = parseDigits
      and toStr = showDigits and data = ex_bob_form and x = ex_pen_line]
    C3_empty_items_rejected [where st = "initialState\<lparr>items := [ex_pen_line]\<rparr>"
      and pf = parseDigits and toStr = showDigits and data = ex_bob_form and x = ex_pen_line]
  by (simp add: initialState_def ex_pen_line_def)

subsection \<open>The price of a line\<close>



subsection \<open>The request of a submission\<close>




subsection \<open>After a successful submission\<close>

text \<open>
  Claim C6, evaluated where it fails. On a state with the selected customer Ann, one line
  and the typed name \<open>Bob\<close>, \<open>onSuccess\<close> invalidates the two query keys, shows the success
  toast, resets the form values and the item list and calls \<^verbatim>\<open>onClose\<close>; the selected
  customer is still Ann. A following submission with one line and the typed name \<open>Bob\<close>
  carries the customer name \<open>Ann\<close>.
\<close>

theorem C6_onSuccess_keeps_selectedCustomer:
  "onSuccess (initialState\<lparr>items := [ex_pen_line], selectedCustomer := Some ex_ann,
                form := ex_bob_form\<rparr>) =
     (initialState\<lparr>selectedCustomer := Some ex_ann\<rparr>,
      [InvalidateQueries (ascii ''/api/transactions''),
       InvalidateQueries (ascii ''/api/dashboard/metrics''),
       Toast successToast, OnClose]) \<and>
   selectedCustomer (fst (onSuccess (initialState\<lparr>items := [ex_pen_line],
       selectedCustomer := Some ex_ann, form := ex_bob_form\<rparr>))) = Some ex_ann \<and>
   map (customerName \<circ> body_transaction)
     (requestsOf (snd (onSubmit parseDigits showDigits
        ((fst (onSuccess (initialState\<lparr>items := [ex_pen_line],
             selectedCustomer := Some ex_ann, form := ex_bob_form\<rparr>)))\<lparr>items := [ex_pen_line]\<rparr>)
        ex_bob_form))) = [ascii ''Ann'']"
  by (simp add: onSuccess_def onSubmit_def initialState_def ex_pen_line_def ex_ann_def
      ex_bob_form_def or_str_def or_undef_def mutationFn_def Let_def ascii_def)

subsection \<open>After a failed submission\<close>

text \<open>
  Claim C7. \<open>onError\<close> returns the state as it was, with the toast of the failed creation
  as its only effect; submitting from the state it returns is submitting from the state
  before.
\<close>

theorem C7_onError_keeps_draft:
  "onError st = (st, [Toast failureToast]) \<and>
   requestsOf (snd (onError st)) = [] \<and>
   onSubmit pf toStr (fst (onError st)) data = onSubmit pf toStr st data"
  by (simp add: onError_def)

subsection \<open>A barcode that resolves to a product\<close>

text \<open>
  Claim C8. When the barcode query yields a product that has no line, the effect appends one
  line of that product with quantity 1, which is then the only line of the product, and
  empties \<open>barcodeInput\<close> and \<open>lastScannedBarcode\<close>.
\<close>

theorem C8_scan_adds_one_line:
  assumes "product_id p \<notin> productId ` set (items st)"
  shows "items (autoAddEffect pf uuid st (Some p)) =
      items st @ [\<lparr>item_id = uuid, transactionId = [], productId = product_id p,
                   productName = product_name p, quantity = 1,
                   price = pf (product_price p), total = pf (product_price p)\<rparr>] \<and>
    filter (\<lambda>i. productId i = product_id p) (items (autoAddEffect pf uuid st (Some p))) =
      [\<lparr>item_id = uuid, transactionId = [], productId = product_id p,
        productName = product_name p, quantity = 1,
        price = pf (product_price p), total = pf (product_price p)\<rparr>] \<and>
    barcodeInput (autoAddEffect pf uuid st (Some p)) = [] \<and>
    lastScannedBarcode (autoAddEffect pf uuid st (Some p)) = []"
proof -
  have f: "filter (\<lambda>i. productId i = product_id p) (items st) = []"
    using assms by (simp add: filter_empty_conv no_line_of_product)
  show ?thesis
    using f by (simp add: autoAddEffect_def addItem_new[OF assms])
qed

theorem C8_scan_adds_one_line_witness:
  "handleBarcodeSearch (initialState\<lparr>barcodeInput := ascii ''123''\<rparr>) =
     initialState\<lparr>barcodeInput := ascii ''123'', lastScannedBarcode := ascii ''123''\<rparr> \<and>
   product_id ex_pen \<notin> productId ` set (items (handleBarcodeSearch
       (initialState\<lparr>barcodeInput := ascii ''123''\<rparr>))) \<and>
   autoAddEffect parseDigits (ascii ''u1'')
     (handleBarcodeSearch (initialState\<lparr>barcodeInput := ascii ''123''\<rparr>)) (Some ex_pen) =
     initialState\<lparr>items := [ex_pen_line]\<rparr>"
  using C8_scan_adds_one_line [where pf = parseDigits and uuid = "ascii ''u1''" and p = ex_pen
      and st = "handleBarcodeSearch (initialState\<lparr>barcodeInput := ascii ''123''\<rparr>)"]
  by (simp add: handleBarcodeSearch_def trim_def isWhiteSpace_def initialState_def
      autoAddEffect_def addItem_def ex_pen_def ex_pen_line_def ascii_def parseDigits_def)

subsection \<open>A barcode that resolves to no product\<close>

text \<open>
  Claim C9. When the barcode query yields no product, the effect returns the state as it
  was (the guard keeps it from reading a field of an absent product), and, the query being
  enabled and no longer loading, the not-found paragraph is rendered.
\<close>

theorem C9_not_found:
  "autoAddEffect pf uuid st None = st \<and>
   (barcodeQueryEnabled st \<longrightarrow>
      notFoundNotice (autoAddEffect pf uuid st None) None False)"
  by (simp add: autoAddEffect_def barcodeQueryEnabled_def notFoundNotice_def)

theorem C9_not_found_witness:
  "barcodeQueryEnabled (handleBarcodeSearch (initialState\<lparr>barcodeInput := ascii ''999''\<rparr>)) \<and>
   autoAddEffect parseDigits (ascii ''u1'')
     (handleBarcodeSearch (initialState\<lparr>barcodeInput := ascii ''999''\<rparr>)) None =
     initialState\<lparr>barcodeInput := ascii ''999'', lastScannedBarcode := ascii ''999''\<rparr> \<and>
   notFoundNotice
     (autoAddEffect parseDigits (ascii ''u1'')
        (handleBarcodeSearch (initialState\<lparr>barcodeInput := ascii ''999''\<rparr>)) None)
     None False"
proof -
  have h: "handleBarcodeSearch (initialState\<lparr>barcodeInput := ascii ''999''\<rparr>) =
      initialState\<lparr>barcodeInput := ascii ''999'', lastScannedBarcode := ascii ''999''\<rparr>"
    by (simp add: handleBarcodeSearch_def trim_def isWhiteSpace_def initialState_def ascii_def)
  have e: "barcodeQueryEnabled
      (handleBarcodeSearch (initialState\<lparr>barcodeInput := ascii ''999''\<rparr>))"
    unfolding h by (simp add: barcodeQueryEnabled_def ascii_def)
  from e C9_not_found [where pf = parseDigits and uuid = "ascii ''u1''"
      and st = "handleBarcodeSearch (initialState\<lparr>barcodeInput := ascii ''999''\<rparr>)"]
  have "autoAddEffect parseDigits (ascii ''u1'')
       (handleBarcodeSearch (initialState\<lparr>barcodeInput := ascii ''999''\<rparr>)) None =
       handleBarcodeSearch (initialState\<lparr>barcodeInput := ascii ''999''\<rparr>) \<and>
     notFoundNotice
       (autoAddEffect parseDigits (ascii ''u1'')
          (handleBarcodeSearch (initialState\<lparr>barcodeInput := ascii ''999''\<rparr>)) None)
       None False"
    by blast
  with e show ?thesis unfolding h by blast
qed

subsection \<open>The barcode search handler\<close>

text \<open>
  Claim C10. When the barcode input is empty or holds white space only,
  \<open>handleBarcodeSearch\<close> returns the state it was given, so the key and the enabling of
  the barcode query are the same as before and no lookup starts. For every other input the
  handler changes \<open>lastScannedBarcode\<close> only, to the trimmed input, which is the second
  component of the key of the now enabled query. The trimmed input is the input without a
  white-space prefix and a white-space suffix, and neither begins nor ends with white space.
\<close>

theorem C10_handleBarcodeSearch:
  "((\<forall>c\<in>set (barcodeInput st). isWhiteSpace c) \<longrightarrow>
      handleBarcodeSearch st = st \<and>
      barcodeQueryKey (handleBarcodeSearch st) = barcodeQueryKey st \<and>
      barcodeQueryEnabled (handleBarcodeSearch st) = barcodeQueryEnabled st) \<and>
   (\<not> (\<forall>c\<in>set (barcodeInput st). isWhiteSpace c) \<longrightarrow>
      handleBarcodeSearch st = st\<lparr>lastScannedBarcode := trim (barcodeInput st)\<rparr> \<and>
      barcodeQueryEnabled (handleBarcodeSearch st) \<and>
      barcodeQueryKey (handleBarcodeSearch st) =
        [ascii ''/api/products/barcode'', trim (barcodeInput st)] \<and>
      \<not> isWhiteSpace (hd (trim (barcodeInput st))) \<and>
      \<not> isWhiteSpace (last (trim (barcodeInput st)))) \<and>
   (\<exists>l r. barcodeInput st = l @ trim (barcodeInput st) @ r \<and>
      (\<forall>c\<in>set l. isWhiteSpace c) \<and> (\<forall>c\<in>set r. isWhiteSpace c))"
proof (intro conjI impI)
  assume "\<forall>c\<in>set (barcodeInput st). isWhiteSpace c"
  then have "trim (barcodeInput st) = []" by (simp add: trim_empty_iff)
  then show h: "handleBarcodeSearch st = st" by (simp add: handleBarcodeSearch_def)
  show "barcodeQueryKey (handleBarcodeSearch st) = barcodeQueryKey st" by (simp add: h)
  show "barcodeQueryEnabled (handleBarcodeSearch st) = barcodeQueryEnabled st" by (simp add: h)
next
  assume "\<not> (\<forall>c\<in>set (barcodeInput st). isWhiteSpace c)"
  then have n: "trim (barcodeInput st) \<noteq> []" by (simp add: trim_empty_iff)
  then show h: "handleBarcodeSearch st = st\<lparr>lastScannedBarcode := trim (barcodeInput st)\<rparr>"
    by (simp add: handleBarcodeSearch_def)
  show "barcodeQueryEnabled (handleBarcodeSearch st)"
    using n by (simp add: h barcodeQueryEnabled_def)
  show "barcodeQueryKey (handleBarcodeSearch st) =
        [ascii ''/api/products/barcode'', trim (barcodeInput st)]"
    by (simp add: h barcodeQueryKey_def)
  show "\<not> isWhiteSpace (hd (trim (barcodeInput st)))"
    and "\<not> isWhiteSpace (last (trim (barcodeInput st)))"
    using trim_ends[OF n] by simp_all
next
  show "\<exists>l r. barcodeInput st = l @ trim (barcodeInput st) @ r \<and>
      (\<forall>c\<in>set l. isWhiteSpace c) \<and> (\<forall>c\<in>set r. isWhiteSpace c)"
    by (rule trim_decomp)
qed

theorem C10_handleBarcodeSearch_witness:
  "isWhiteSpace 0x20 \<and> isWhiteSpace 0x09 \<and> isWhiteSpace 0xA0 \<and>
   handleBarcodeSearch (initialState\<lparr>barcodeInput := [0x20, 0x09, 0xA0]\<rparr>) =
     initialState\<lparr>barcodeInput := [0x20, 0x09, 0xA0]\<rparr> \<and>
   \<not> isWhiteSpace 0x31 \<and>
   handleBarcodeSearch (initialState\<lparr>barcodeInput := ascii '' 12 3 ''\<rparr>) =
     initialState\<lparr>barcodeInput := ascii '' 12 3 '', lastScannedBarcode := ascii ''12 3''\<rparr>"
  using C10_handleBarcodeSearch [where st = "initialState\<lparr>barcodeInput := [0x20, 0x09, 0xA0]\<rparr>"]
    C10_handleBarcodeSearch [where st = "initialState\<lparr>barcodeInput := ascii '' 12 3 ''\<rparr>"]
  by (simp add: trim_def isWhiteSpace_def initialState_def ascii_def)

end
